theory Spec2Isabelle
  imports Main
begin

section \<open>KPAdmin: form submission, ledger append and document publish\<close>

text \<open>
  A shallow embedding of \<^verbatim>\<open>src/main.py\<close>. The script is a Streamlit page: three
  functions (\<^verbatim>\<open>fetch_records\<close>, \<^verbatim>\<open>post_to_repo\<close>, \<^verbatim>\<open>update_repo_file\<close>) and the body
  of the submit handler. Everything the script does to the outside is explicit state:
  the HTTP requests it issues are logged in order and answered by a remote store with a
  state of its own, the messages shown to the user are logged, the clock is read through
  a tick counter, and local files are a map from paths to bytes. Python exceptions that
  the script does not catch are values of type \<open>exn\<close>.

  Text is \<open>string\<close>, holding the UTF-8 bytes, so \<^verbatim>\<open>encode('utf-8')\<close> and
  \<^verbatim>\<open>decode()\<close> of ASCII base64 text are the identity.
\<close>

subsection \<open>Decimal numbers, timestamps, base64\<close>

type_synonym bytes = "char list"

definition digit :: "nat \<Rightarrow> char" where
  "digit n = ''0123456789'' ! (n mod 10)"

text \<open>Python's \<^verbatim>\<open>str(n)\<close> for an integer, as an f-string inserts it.\<close>

fun str_nat :: "nat \<Rightarrow> string" where
  "str_nat n = (if n < 10 then [digit n] else str_nat (n div 10) @ [digit n])"

declare str_nat.simps [simp del]

definition str_int :: "int \<Rightarrow> string" where
  "str_int i = (if i < 0 then CHR ''-'' # str_nat (nat (- i)) else str_nat (nat i))"

text \<open>
  \<^verbatim>\<open>datetime.now()\<close>: the fields the script formats. A \<^verbatim>\<open>datetime\<close> has a year of
  at most 9999, a month and a day of two digits, an hour below 24 and a minute below 60.
\<close>

record datetime =
  year :: nat
  month :: nat
  day :: nat
  hour :: nat
  minute :: nat

definition pad2 :: "nat \<Rightarrow> string" where
  "pad2 n = [digit (n div 10), digit n]"

definition pad4 :: "nat \<Rightarrow> string" where
  "pad4 n = [digit (n div 1000), digit (n div 100), digit (n div 10), digit n]"

text \<open>
  The directives of \<^verbatim>\<open>strftime\<close> that the script can reach: \<^verbatim>\<open>%Y\<close> year,
  \<^verbatim>\<open>%m\<close> month, \<^verbatim>\<open>%d\<close> day of the month, \<^verbatim>\<open>%H\<close> hour, \<^verbatim>\<open>%M\<close> minute.
\<close>

definition directive :: "datetime \<Rightarrow> char \<Rightarrow> string" where
  "directive t c =
     (if c = CHR ''Y'' then pad4 (year t)
      else if c = CHR ''m'' then pad2 (month t)
      else if c = CHR ''d'' then pad2 (day t)
      else if c = CHR ''H'' then pad2 (hour t)
      else if c = CHR ''M'' then pad2 (minute t)
      else [CHR ''%'', c])"

fun strftime :: "datetime \<Rightarrow> string \<Rightarrow> string" where
  "strftime t [] = []"
| "strftime t (c # rest) =
     (if c = CHR ''%'' then
        (case rest of [] \<Rightarrow> [c] | d # rest' \<Rightarrow> directive t d @ strftime t rest')
      else c # strftime t rest)"

declare strftime.simps [simp del]

definition b64_alphabet :: string where
  "b64_alphabet = ''ABCDEFGHIJKLMNOPQRSTUVWXYZabcdefghijklmnopqrstuvwxyz0123456789+/''"

definition b64_sym :: "nat \<Rightarrow> char" where
  "b64_sym n = b64_alphabet ! (n mod 64)"

text \<open>\<^verbatim>\<open>base64.b64encode(b).decode()\<close>: three bytes give four symbols, with \<^verbatim>\<open>=\<close> padding.\<close>

fun b64encode :: "bytes \<Rightarrow> string" where
  "b64encode [] = []"
| "b64encode [a] =
     (let x = (of_char a :: nat)
      in [b64_sym (x div 4), b64_sym ((x mod 4) * 16), CHR ''='', CHR ''=''])"
| "b64encode [a, b] =
     (let x = (of_char a :: nat); y = (of_char b :: nat)
      in [b64_sym (x div 4), b64_sym ((x mod 4) * 16 + y div 16),
          b64_sym ((y mod 16) * 4), CHR ''=''])"
| "b64encode (a # b # c # rest) =
     (let x = (of_char a :: nat); y = (of_char b :: nat); z = (of_char c :: nat)
      in [b64_sym (x div 4), b64_sym ((x mod 4) * 16 + y div 16),
          b64_sym ((y mod 16) * 4 + z div 64), b64_sym z] @ b64encode rest)"

subsection \<open>Tables: the part of pandas the script uses\<close>

text \<open>
  A \<^verbatim>\<open>DataFrame\<close> is its column labels and its rows, each row holding one cell per
  column; a cell is text or missing (\<^verbatim>\<open>NaN\<close>). The row index is the position in the
  list, which is what \<^verbatim>\<open>ignore_index=True\<close> leaves. Cells are kept as the text
  they hold: the numeric column types that pandas infers are not modelled. Column labels
  are distinct, as \<^verbatim>\<open>read_csv\<close> delivers them (\<open>wf_frame\<close>).
\<close>

datatype cell = NaN | Text string

record dataframe =
  columns :: "string list"
  rows :: "cell list list"

definition wf_frame :: "dataframe \<Rightarrow> bool" where
  "wf_frame df \<longleftrightarrow> distinct (columns df) \<and> (\<forall>r \<in> set (rows df). length r = length (columns df))"

text \<open>\<^verbatim>\<open>pd.DataFrame([record])\<close> for one dict: its keys are the columns, in insertion order.\<close>

definition DataFrame :: "(string \<times> string) list \<Rightarrow> dataframe" where
  "DataFrame record = \<lparr>columns = map fst record, rows = [map (\<lambda>kv. Text (snd kv)) record]\<rparr>"

definition reindex :: "string list \<Rightarrow> string list \<Rightarrow> cell list \<Rightarrow> cell list" where
  "reindex cols_from cols_to r =
     map (\<lambda>c. case map_of (zip cols_from r) c of None \<Rightarrow> NaN | Some v \<Rightarrow> v) cols_to"

text \<open>
  Two frames stacked by \<^verbatim>\<open>pd.concat\<close> (outer join on the columns, \<^verbatim>\<open>sort=False\<close>):
  the columns of the first, then those of the second that the first lacks; a row has
  \<^verbatim>\<open>NaN\<close> in the columns its own frame lacks.
\<close>

definition stack :: "dataframe \<Rightarrow> dataframe \<Rightarrow> dataframe" where
  "stack a b =
     (let cols = columns a @ filter (\<lambda>c. c \<notin> set (columns a)) (columns b)
      in \<lparr>columns = cols,
          rows = map (reindex (columns a) cols) (rows a) @ map (reindex (columns b) cols) (rows b)\<rparr>)"

datatype exn =
    KeyError string
  | FileNotFoundError string
  | RequestException string
  | ValueError string

text \<open>
  \<^verbatim>\<open>pd.concat(objs, ignore_index=True)\<close>: \<^verbatim>\<open>None\<close> entries are dropped silently, and
  only a list of nothing but \<^verbatim>\<open>None\<close> raises.
\<close>

definition pd_concat :: "dataframe option list \<Rightarrow> exn + dataframe" where
  "pd_concat objs =
     (case List.map_filter (\<lambda>x. x) objs of
        [] \<Rightarrow> Inl (ValueError ''All objects passed were None'')
      | d # ds \<Rightarrow> Inr (foldl stack d ds))"

text \<open>
  \<^verbatim>\<open>DataFrame.to_csv(index=...)\<close> with no further arguments: a header record, then
  one record per row, \<^verbatim>\<open>NaN\<close> written as the empty field; with \<^verbatim>\<open>index=True\<close> every
  record starts with one more field, the row number (empty in the header). Fields are
  joined by commas and quoted only where they must be (a comma, a quote or a line break
  inside, or a record of one empty field); a record ends with a line feed.
\<close>

definition cell_text :: "cell \<Rightarrow> string" where
  "cell_text c = (case c of NaN \<Rightarrow> [] | Text s \<Rightarrow> s)"

definition csv_records :: "dataframe \<Rightarrow> bool \<Rightarrow> string list list" where
  "csv_records df index =
     (if index
      then ([] # columns df) # map (\<lambda>(i, r). str_nat i # map cell_text r) (enumerate 0 (rows df))
      else columns df # map (map cell_text) (rows df))"

definition needs_quotes :: "string \<Rightarrow> bool" where
  "needs_quotes s \<longleftrightarrow> (\<exists>c \<in> set s. c \<in> set [CHR '','', CHR 0x22, CHR 0x0A, CHR 0x0D])"

definition csv_field :: "string \<Rightarrow> string" where
  "csv_field s =
     (if needs_quotes s
      then [CHR 0x22] @ concat (map (\<lambda>c. if c = CHR 0x22 then [c, c] else [c]) s) @ [CHR 0x22]
      else s)"

fun join :: "string \<Rightarrow> string list \<Rightarrow> string" where
  "join sep [] = []"
| "join sep [x] = x"
| "join sep (x # y # ys) = x @ sep @ join sep (y # ys)"

definition csv_line :: "string list \<Rightarrow> string" where
  "csv_line flds =
     (if flds = [[]] then [CHR 0x22, CHR 0x22] else join '','' (map csv_field flds)) @ [CHR 0x0A]"

definition to_csv :: "dataframe \<Rightarrow> bool \<Rightarrow> string" where
  "to_csv df index = concat (map csv_line (csv_records df index))"

subsection \<open>The remote store, the user interface and the local files\<close>

datatype http_verb = GET | POST | PUT

text \<open>
  A call of \<^verbatim>\<open>requests.get\<close>, \<^verbatim>\<open>requests.post\<close> or \<^verbatim>\<open>requests.put\<close>: the verb, the
  URL, the \<^verbatim>\<open>json=\<close> dict in insertion order (empty for a GET) and the credentials.
\<close>

record request =
  verb :: http_verb
  url :: string
  payload :: "(string \<times> string) list"
  credentials :: "string \<times> string"

text \<open>
  A response: the status code, the body (\<^verbatim>\<open>response.content\<close> and
  \<^verbatim>\<open>response.text\<close>), and what \<^verbatim>\<open>response.json()\<close> gives: \<open>Inr\<close> the string
  members of the JSON object, or, when the body is not JSON, \<open>Inl\<close> the message of the
  \<^verbatim>\<open>requests.exceptions.JSONDecodeError\<close> that \<^verbatim>\<open>json()\<close> raises, which is a
  \<^verbatim>\<open>RequestException\<close> (requests 2.27 and later).
\<close>

record response =
  status_code :: int
  body :: string
  json :: "string + (string \<times> string) list"

text \<open>A request is answered, or the transport raises a \<^verbatim>\<open>requests.RequestException\<close>.\<close>

datatype outcome = Response response | Raises string

datatype ui_msg =
    StError string
  | StSuccess string
  | StWrite string
  | StWriteData string "string \<Rightarrow> string option"
  | StLinkButton string string

text \<open>
  The state a run of the script works on: the remote store, the requests issued so far,
  the messages shown so far, the number of clock reads, the local files,
  \<^verbatim>\<open>st.session_state["f100d_e"]\<close> and \<^verbatim>\<open>st.session_state['success']\<close>.
\<close>

record 's world =
  store :: 's
  sent :: "request list"
  ui :: "ui_msg list"
  ticks :: nat
  files :: "string \<Rightarrow> bytes option"
  form_state :: "string \<Rightarrow> string option"
  success_flag :: "bool option"

text \<open>
  What the script is configured with (the secrets of lines 19 to 24), and the outside it
  runs against: the remote store answering a request in a store state, the clock, and the
  two library functions whose result depends on file formats, \<^verbatim>\<open>pd.read_csv\<close> (the
  decoded table, or the message of the exception it raises) and
  \<^verbatim>\<open>fillpdfs.write_fillable_pdf\<close> (the bytes of the filled document).
\<close>

record 's env =
  repo_url :: string
  api_base :: string
  auth :: "string \<times> string"
  owner :: string
  repo :: string
  remote :: "'s \<Rightarrow> request \<Rightarrow> outcome \<times> 's"
  clock :: "nat \<Rightarrow> datetime"
  read_csv :: "string \<Rightarrow> nat option \<Rightarrow> string + dataframe"
  fill_template :: "bytes \<Rightarrow> (string \<Rightarrow> string option) \<Rightarrow> bytes"

definition branch :: string where
  "branch = ''main''"

definition send :: "'s env \<Rightarrow> request \<Rightarrow> 's world \<Rightarrow> outcome \<times> 's world" where
  "send E q w =
     (case remote E (store w) q of
        (out, s') \<Rightarrow> (out, w\<lparr>store := s', sent := sent w @ [q]\<rparr>))"

definition now :: "'s env \<Rightarrow> 's world \<Rightarrow> datetime \<times> 's world" where
  "now E w = (clock E (ticks w), w\<lparr>ticks := Suc (ticks w)\<rparr>)"

definition show_msg :: "ui_msg \<Rightarrow> 's world \<Rightarrow> 's world" where
  "show_msg m w = w\<lparr>ui := ui w @ [m]\<rparr>"

text \<open>The requests a run issued: those logged after the ones that were there before.\<close>

definition issued :: "'s world \<Rightarrow> 's world \<Rightarrow> request list" where
  "issued w w' = drop (length (sent w)) (sent w')"

definition shown :: "'s world \<Rightarrow> 's world \<Rightarrow> ui_msg list" where
  "shown w w' = drop (length (ui w)) (ui w')"

subsection \<open>\<^verbatim>\<open>fetch_records\<close> (lines 27 to 47)\<close>

definition raw_url :: "'s env \<Rightarrow> string \<Rightarrow> string" where
  "raw_url E file_path = repo_url E @ ''/raw/'' @ branch @ ''/'' @ file_path"

text \<open>
  The result is \<open>None\<close> for Python's \<^verbatim>\<open>None\<close>. Every exception is caught, that of
  the transport and that of decoding and parsing alike.
\<close>

definition fetch_records :: "'s env \<Rightarrow> string \<Rightarrow> nat option \<Rightarrow> 's world \<Rightarrow> dataframe option \<times> 's world" where
  "fetch_records E file_path header w =
     (case send E \<lparr>verb = GET, url = raw_url E file_path, payload = [], credentials = auth E\<rparr> w of
        (Raises e, w1) \<Rightarrow> (None, show_msg (StError (''Error: '' @ e)) w1)
      | (Response r, w1) \<Rightarrow>
          if status_code r = 200 then
            (case read_csv E (body r) header of
               Inr df \<Rightarrow> (Some df, w1)
             | Inl e \<Rightarrow> (None, show_msg (StError (''Error: '' @ e)) w1))
          else
            (None, show_msg (StError (''Failed to fetch '' @ file_path @ ''. Status code: ''
                                      @ str_int (status_code r))) w1))"

subsection \<open>\<^verbatim>\<open>post_to_repo\<close> (lines 50 to 83)\<close>

definition contents_url :: "'s env \<Rightarrow> string \<Rightarrow> string" where
  "contents_url E file_path =
     api_base E @ ''/repos/'' @ owner E @ ''/'' @ repo E @ ''/contents/'' @ file_path"

text \<open>
  Opening a missing file raises, and so does the transport: neither is caught here. The
  default message reads the clock; a message that is given does not.
\<close>

definition post_to_repo ::
  "'s env \<Rightarrow> string \<Rightarrow> string \<Rightarrow> string \<Rightarrow> string option \<Rightarrow> 's world \<Rightarrow> (exn + bool) \<times> 's world" where
  "post_to_repo E pdf_path file_path name message w =
     (case files w pdf_path of
        None \<Rightarrow> (Inl (FileNotFoundError pdf_path), w)
      | Some pdf_content \<Rightarrow>
          let content = b64encode pdf_content;
              target = contents_url E file_path;
              (msg, w0) = (case message of
                             None \<Rightarrow> (case now E w of
                                        (t, w') \<Rightarrow> (''PDF uploaded by '' @ name @ '' at ''
                                                    @ strftime t ''%Y-%m-%d-%H-%m'', w'))
                           | Some m \<Rightarrow> (m, w))
          in (case send E \<lparr>verb = POST, url = target,
                            payload = [(''message'', msg), (''content'', content), (''branch'', branch)],
                            credentials = auth E\<rparr> w0 of
                (Raises e, w1) \<Rightarrow> (Inl (RequestException e), w1)
              | (Response r, w1) \<Rightarrow>
                  if status_code r = 200 \<or> status_code r = 201 then
                    (Inr True, show_msg (StSuccess (''PDF correctly submitted for review: '' @ msg)) w1)
                  else
                    (Inr False, (show_msg (StError (''Failed to commit: '' @ body r)) w1)
                                  \<lparr>success_flag := Some False\<rparr>)))"

subsection \<open>\<^verbatim>\<open>update_repo_file\<close> (lines 86 to 158)\<close>

text \<open>
  The argument \<^verbatim>\<open>new_content\<close> is any Python object; the function asks whether it is a
  \<^verbatim>\<open>DataFrame\<close> (line 103), which is the case distinction on \<open>new_content\<close> below.
  The submit handler passes no \<^verbatim>\<open>to_csv\<close> keyword, and none is modelled.
\<close>

datatype pyobj = PyNone | PyText string | PyFrame dataframe

fun isinstance_DataFrame :: "pyobj \<Rightarrow> bool" where
  "isinstance_DataFrame (PyFrame df) = True"
| "isinstance_DataFrame x = False"

text \<open>
  Step 1 (lines 110 to 126): the revision marker. \<open>Inr (Some sha)\<close> is a marker read
  from a 200 response, \<open>Inr None\<close> the \<^verbatim>\<open>None\<close> of a 404; the outer \<open>Inl\<close> is an
  early \<^verbatim>\<open>return False\<close> after the message, \<open>Inl (Inl e)\<close> an exception that escapes
  (\<^verbatim>\<open>contents['sha']\<close> on an object without that key: only \<^verbatim>\<open>RequestException\<close> is
  caught).
\<close>

definition retrieve_sha :: "outcome \<Rightarrow> (exn + ui_msg) + string option" where
  "retrieve_sha out =
     (case out of
        Raises e \<Rightarrow> Inl (Inr (StError (''Failed to fetch file info: '' @ e)))
      | Response r \<Rightarrow>
          if status_code r = 200 then
            (case json r of
               Inl e \<Rightarrow> Inl (Inr (StError (''Failed to fetch file info: '' @ e)))
             | Inr contents \<Rightarrow>
                 (case map_of contents ''sha'' of
                    None \<Rightarrow> Inl (Inl (KeyError ''sha''))
                  | Some sha \<Rightarrow> Inr (Some sha)))
          else if status_code r = 404 then Inr None
          else Inl (Inr (StError (''Error retrieving file info: '' @ str_int (status_code r)
                                  @ '' - '' @ body r))))"

text \<open>Python's truth value of the marker: \<^verbatim>\<open>None\<close> and the empty string are false.\<close>

fun truthy :: "string option \<Rightarrow> bool" where
  "truthy None = False"
| "truthy (Some s) = (s \<noteq> [])"

definition update_repo_file ::
  "'s env \<Rightarrow> string \<Rightarrow> pyobj \<Rightarrow> string \<Rightarrow> string option \<Rightarrow> 's world \<Rightarrow> (exn + bool) \<times> 's world" where
  "update_repo_file E file_path new_content name commit_message w =
     (case new_content of
        PyFrame df \<Rightarrow>
          let target = contents_url E file_path
          in (case send E \<lparr>verb = GET, url = target, payload = [], credentials = auth E\<rparr> w of
                (out, w1) \<Rightarrow>
                  (case retrieve_sha out of
                     Inl (Inl e) \<Rightarrow> (Inl e, w1)
                   | Inl (Inr m) \<Rightarrow> (Inr False, show_msg m w1)
                   | Inr sha \<Rightarrow>
                       let csv_string = to_csv df False;
                           content_base64 = b64encode csv_string;
                           (msg, w2) = (if truthy commit_message then (the commit_message, w1)
                                        else (case now E w1 of
                                                (t, w') \<Rightarrow> (''Edited by '' @ name @ '' at ''
                                                            @ strftime t ''%Y-%m-%d-%H-%m'', w')));
                           data = [(''message'', msg), (''content'', content_base64)]
                                  @ (if truthy sha then [(''sha'', the sha)] else [])
                       in (case send E \<lparr>verb = PUT, url = target, payload = data,
                                         credentials = auth E\<rparr> w2 of
                             (Raises e, w3) \<Rightarrow>
                               (Inr False, show_msg (StError (''Failed to update file: '' @ e)) w3)
                           | (Response r, w3) \<Rightarrow>
                               if status_code r = 200 \<or> status_code r = 201 then
                                 (Inr True, show_msg (StSuccess ''File updated successfully.'') w3)
                               else
                                 (Inr False, show_msg (StError (''Failed to update file: ''
                                    @ str_int (status_code r) @ '' - '' @ body r)) w3))))
      | _ \<Rightarrow> (Inr False, show_msg (StError ''new_content must be a Pandas DataFrame'') w))"

text \<open>The request of \<^verbatim>\<open>fetch_records\<close>, for the raw file.\<close>

definition raw_request :: "'s env \<Rightarrow> string \<Rightarrow> request" where
  "raw_request E file_path =
     \<lparr>verb = GET, url = raw_url E file_path, payload = [], credentials = auth E\<rparr>"

text \<open>The request of step 1, by which the function asks for the file's revision marker.\<close>

definition info_request :: "'s env \<Rightarrow> string \<Rightarrow> request" where
  "info_request E file_path =
     \<lparr>verb = GET, url = contents_url E file_path, payload = [], credentials = auth E\<rparr>"

subsection \<open>The submit handler (lines 164 to 233)\<close>

definition INPUT_PDF :: string where
  "INPUT_PDF = ''assets/f100d_e_fillable.pdf''"

definition OUTPUT_PDF :: string where
  "OUTPUT_PDF = ''assets/filled_form.pdf''"

text \<open>
  Lines 204 and 205: the loop over \<^verbatim>\<open>zip(inputs, form_fields)\<close>, storing each value
  under its field in \<^verbatim>\<open>st.session_state["f100d_e"]\<close>. \<^verbatim>\<open>zip\<close> stops at the shorter
  list.
\<close>

fun assign_fields :: "(string \<times> string) list \<Rightarrow> (string \<Rightarrow> string option) \<Rightarrow> (string \<Rightarrow> string option)" where
  "assign_fields [] st = st"
| "assign_fields ((input_value, field) # rest) st = assign_fields rest (st(field \<mapsto> input_value))"

text \<open>Lines 197 and 203: the values in the order of the template's fields.\<close>

definition form_inputs :: "string \<Rightarrow> string \<Rightarrow> string \<Rightarrow> string \<Rightarrow> string \<Rightarrow> string list" where
  "form_inputs trainee_name name department institution date =
     (let signature_text = name
      in [trainee_name, name, department, institution, signature_text, date])"

text \<open>
  Lines 203 to 213: map the inputs to the fields, show them, and have the library write
  the filled document from the template. \<open>form_fields\<close> is the list of the template's
  field names (line 171), the keys of a dict.
\<close>

definition fill_form :: "'s env \<Rightarrow> string list \<Rightarrow> string list \<Rightarrow> 's world \<Rightarrow> exn option \<times> 's world" where
  "fill_form E form_fields inputs w =
     (let data = assign_fields (zip inputs form_fields) (form_state w);
          w1 = show_msg (StWriteData ''Form Data:'' data) (w\<lparr>form_state := data\<rparr>)
      in (case files w1 INPUT_PDF of
            None \<Rightarrow> (Some (FileNotFoundError INPUT_PDF), w1)
          | Some template \<Rightarrow>
              (None, w1\<lparr>files := (files w1)(OUTPUT_PDF \<mapsto> fill_template E template data)\<rparr>)))"

definition new_record :: "string \<Rightarrow> string \<Rightarrow> (string \<times> string) list" where
  "new_record name date = [(''name'', name), (''form'', ''f100d_e''), (''signed_on'', date)]"

definition ledger_path :: string where
  "ledger_path = ''assets/form_records.csv''"

text \<open>
  Lines 216 to 225: fetch the ledger, append the new record, write the table back.
  \<^verbatim>\<open>fetch_records()\<close> is called with its defaults (the ledger path, \<^verbatim>\<open>header=0\<close>).
\<close>

definition append_ledger :: "'s env \<Rightarrow> string \<Rightarrow> string \<Rightarrow> 's world \<Rightarrow> (exn + bool) \<times> 's world" where
  "append_ledger E name date w =
     (case fetch_records E ledger_path (Some 0) w of
        (df, w1) \<Rightarrow>
          (case pd_concat [df, Some (DataFrame (new_record name date))] of
             Inl e \<Rightarrow> (Inl e, w1)
           | Inr df' \<Rightarrow> update_repo_file E ledger_path (PyFrame df') name None w1))"

definition pdf_repo_path :: "string \<Rightarrow> string \<Rightarrow> string" where
  "pdf_repo_path name date = ''assets/filled_forms/f100d_e_'' @ name @ ''_'' @ date @ ''.pdf''"

text \<open>Lines 228 and 229.\<close>

definition publish_document :: "'s env \<Rightarrow> string \<Rightarrow> string \<Rightarrow> 's world \<Rightarrow> (exn + bool) \<times> 's world" where
  "publish_document E name date w = post_to_repo E OUTPUT_PDF (pdf_repo_path name date) name None w"

definition records_link :: string where
  "records_link = ''https://206-12-100-80.cloud.computecanada.ca/acbc-repo/poduska-lab/KPAdmin''"

text \<open>
  The handler: the date is read from the clock when the form is drawn (line 196), then
  the three steps run one after the other. An exception that escapes a step ends the run
  (\<open>Some e\<close>); a step that returns \<^verbatim>\<open>False\<close> does not.
\<close>

definition submit ::
  "'s env \<Rightarrow> string list \<Rightarrow> string \<Rightarrow> string \<Rightarrow> string \<Rightarrow> string \<Rightarrow> 's world \<Rightarrow> exn option \<times> 's world" where
  "submit E form_fields trainee_name name department institution w =
     (case now E w of
        (t, w0) \<Rightarrow>
          let date = strftime t ''%Y-%m-%d''
          in (case fill_form E form_fields
                     (form_inputs trainee_name name department institution date) w0 of
                (Some e, w1) \<Rightarrow> (Some e, w1)
              | (None, w1) \<Rightarrow>
                  (case append_ledger E name date w1 of
                     (Inl e, w2) \<Rightarrow> (Some e, w2)
                   | (Inr record_success, w2) \<Rightarrow>
                       (case publish_document E name date w2 of
                          (Inl e, w3) \<Rightarrow> (Some e, w3)
                        | (Inr pdf_success, w3) \<Rightarrow>
                            if record_success \<and> pdf_success then
                              (None, show_msg (StLinkButton ''Visit Records'' records_link)
                                       (show_msg (StWrite ''Visit the assets folder in the forms repository if you have access:'') w3))
                            else (None, w3)))))"

subsection \<open>A remote store that answers from a script\<close>

text \<open>
  For concrete runs: a store whose state is the list of answers it will still give, one
  per request, and which refuses the connection once the list is used up.
\<close>

fun scripted :: "outcome list \<Rightarrow> request \<Rightarrow> outcome \<times> outcome list" where
  "scripted [] q = (Raises ''connection refused'', [])"
| "scripted (out # outs) q = (out, outs)"

definition no_json :: string where
  "no_json = ''Expecting value: line 1 column 1 (char 0)''"

definition answer :: "int \<Rightarrow> string \<Rightarrow> (string \<times> string) list option \<Rightarrow> outcome" where
  "answer code txt js =
     Response \<lparr>status_code = code, body = txt,
               json = (case js of None \<Rightarrow> Inl no_json | Some members \<Rightarrow> Inr members)\<rparr>"

definition sample_ledger :: dataframe where
  "sample_ledger =
     \<lparr>columns = [''name'', ''form'', ''signed_on''],
      rows = [[Text ''B. Prior'', Text ''f100d_e'', Text ''2024-01-01'']]\<rparr>"

definition sample_env :: "(outcome list) env" where
  "sample_env =
     \<lparr>repo_url = ''https://git.example/lab/KPAdmin'',
      api_base = ''https://git.example/api/v1'',
      auth = (''user'', ''secret''),
      owner = ''lab'',
      repo = ''KPAdmin'',
      remote = scripted,
      clock = (\<lambda>n. \<lparr>year = 2024, month = 3, day = 5, hour = 14, minute = 59\<rparr>),
      read_csv = (\<lambda>s header. if s = [] then Inl ''No columns to parse from file'' else Inr sample_ledger),
      fill_template = (\<lambda>template data. template)\<rparr>"

definition sample_world :: "outcome list \<Rightarrow> (outcome list) world" where
  "sample_world script =
     \<lparr>store = script, sent = [], ui = [], ticks = 0,
      files = [INPUT_PDF \<mapsto> ''%PDF''], form_state = Map.empty, success_flag = None\<rparr>"

definition sample_fields :: "string list" where
  "sample_fields = [''trainee'', ''name'', ''department'', ''institution'', ''signature'', ''date'']"

section \<open>Properties\<close>

lemma issued_append [simp]: "sent w' = sent w @ qs \<Longrightarrow> issued w w' = qs"
  by (simp add: issued_def)

lemma send_eq:
  "send E q w = (fst (remote E (store w) q),
                 w\<lparr>store := snd (remote E (store w) q), sent := sent w @ [q]\<rparr>)"
  by (simp add: send_def split: prod.splits)

lemma verb_info [simp]: "verb (info_request E p) = GET"
  by (simp add: info_request_def)

lemmas run_defs = sample_env_def sample_world_def update_repo_file_def post_to_repo_def send_def
  now_def show_msg_def retrieve_sha_def answer_def contents_url_def issued_def Let_def
  strftime.simps directive_def pad2_def pad4_def digit_def ledger_path_def info_request_def

subsection \<open>The form-fill step\<close>

lemma assign_fields_other:
  "f \<notin> snd ` set ps \<Longrightarrow> assign_fields ps st f = st f"
  by (induction ps st rule: assign_fields.induct) auto

lemma assign_fields_zip_nth:
  "distinct flds \<Longrightarrow> i < length inputs \<Longrightarrow> i < length flds \<Longrightarrow>
   assign_fields (zip inputs flds) st (flds ! i) = Some (inputs ! i)"
proof (induction inputs arbitrary: flds st i)
  case Nil
  then show ?case by simp
next
  case (Cons v vs)
  then obtain f fs where flds: "flds = f # fs" by (cases flds) auto
  show ?case
  proof (cases i)
    case 0
    have "f \<notin> snd ` set (zip vs fs)"
      using Cons.prems(1) flds by (auto dest: set_zip_rightD)
    then show ?thesis using 0 flds by (simp add: assign_fields_other)
  next
    case (Suc j)
    then show ?thesis using Cons flds by simp
  qed
qed

lemma assign_fields_untouched:
  assumes "f \<notin> set (take (length inputs) flds)"
  shows "assign_fields (zip inputs flds) st f = st f"
proof -
  have "map snd (zip inputs flds) = take (min (length inputs) (length flds)) flds"
    by (rule map_snd_zip_take)
  then have "snd ` set (zip inputs flds) \<subseteq> set (take (length inputs) flds)"
    by (metis set_map set_take_subset_set_take min.cobounded1)
  then show ?thesis using assms assign_fields_other by blast
qed

lemma trailing_not_in_take:
  assumes "distinct flds" and "k \<le> i" and "i < length flds"
  shows "flds ! i \<notin> set (take k flds)"
proof
  assume "flds ! i \<in> set (take k flds)"
  then obtain j where j: "j < k" "j < length flds" "flds ! j = flds ! i"
    by (auto simp: in_set_conv_nth)
  then have "j = i" using assms(1,3) by (simp add: nth_eq_iff_index_eq)
  then show False using j(1) assms(2) by simp
qed

lemma fill_form_state:
  "form_state (snd (fill_form E form_fields inputs w))
     = assign_fields (zip inputs form_fields) (form_state w)"
  by (simp add: fill_form_def Let_def show_msg_def split: option.splits)

lemma fill_form_ok:
  assumes "files w INPUT_PDF = Some template"
  shows "fst (fill_form E form_fields inputs w) = None"
    and "files (snd (fill_form E form_fields inputs w)) OUTPUT_PDF
           = Some (fill_template E template (assign_fields (zip inputs form_fields) (form_state w)))"
  using assms by (simp_all add: fill_form_def Let_def show_msg_def)

text \<open>
  C8. A template with more fields than there are values: the form-fill step raises
  nothing, the first \<open>k\<close> fields hold the \<open>k\<close> values in the declared order, every other
  field is as it was before (unset, when the session started empty, as line 175 leaves
  it), and the library is handed exactly that mapping.
\<close>

theorem fill_form_partial:
  assumes "distinct form_fields"
    and "length inputs < length form_fields"
    and "files w INPUT_PDF = Some template"
  shows "fst (fill_form E form_fields inputs w) = None
       \<and> (\<forall>i < length inputs.
            form_state (snd (fill_form E form_fields inputs w)) (form_fields ! i) = Some (inputs ! i))
       \<and> (\<forall>i. length inputs \<le> i \<and> i < length form_fields \<longrightarrow>
            form_state (snd (fill_form E form_fields inputs w)) (form_fields ! i)
              = form_state w (form_fields ! i))
       \<and> (form_state w = Map.empty \<longrightarrow>
            (\<forall>i. length inputs \<le> i \<and> i < length form_fields \<longrightarrow>
               form_state (snd (fill_form E form_fields inputs w)) (form_fields ! i) = None))
       \<and> (\<forall>f. f \<notin> set (take (length inputs) form_fields) \<longrightarrow>
            form_state (snd (fill_form E form_fields inputs w)) f = form_state w f)
       \<and> files (snd (fill_form E form_fields inputs w)) OUTPUT_PDF
            = Some (fill_template E template (form_state (snd (fill_form E form_fields inputs w))))"
proof -
  let ?st = "form_state (snd (fill_form E form_fields inputs w))"
  have first: "\<forall>i < length inputs. ?st (form_fields ! i) = Some (inputs ! i)"
    using assms(1,2) by (simp add: fill_form_state assign_fields_zip_nth)
  have other: "\<forall>f. f \<notin> set (take (length inputs) form_fields) \<longrightarrow> ?st f = form_state w f"
    by (simp add: fill_form_state assign_fields_untouched)
  have trailing: "\<forall>i. length inputs \<le> i \<and> i < length form_fields \<longrightarrow>
      ?st (form_fields ! i) = form_state w (form_fields ! i)"
    using other trailing_not_in_take [OF assms(1)] by blast
  have unset: "form_state w = Map.empty \<longrightarrow>
      (\<forall>i. length inputs \<le> i \<and> i < length form_fields \<longrightarrow> ?st (form_fields ! i) = None)"
    using trailing by simp
  show ?thesis
    using first trailing unset other fill_form_ok [OF assms(3)]
    by (simp add: fill_form_state)
qed

theorem fill_form_partial_witness:
  "fst (fill_form sample_env sample_fields [''Tia'', ''Ada''] (sample_world [])) = None
   \<and> form_state (snd (fill_form sample_env sample_fields [''Tia'', ''Ada''] (sample_world []))) ''trainee''
       = Some ''Tia''
   \<and> form_state (snd (fill_form sample_env sample_fields [''Tia'', ''Ada''] (sample_world []))) ''name''
       = Some ''Ada''
   \<and> form_state (snd (fill_form sample_env sample_fields [''Tia'', ''Ada''] (sample_world []))) ''signature''
       = None"
proof -
  have d: "distinct sample_fields" by (simp add: sample_fields_def)
  have l: "length [''Tia'', ''Ada''] < length sample_fields" by (simp add: sample_fields_def)
  have t: "files (sample_world []) INPUT_PDF = Some ''%PDF''" by (simp add: sample_world_def)
  have e: "form_state (sample_world []) = Map.empty" by (simp add: sample_world_def)
  note h = fill_form_partial [OF d l t, of sample_env]
  have a: "form_state (snd (fill_form sample_env sample_fields [''Tia'', ''Ada''] (sample_world [])))
             (sample_fields ! 0) = Some ([''Tia'', ''Ada''] ! 0)"
    using h by simp
  have b: "form_state (snd (fill_form sample_env sample_fields [''Tia'', ''Ada''] (sample_world [])))
             (sample_fields ! 1) = Some ([''Tia'', ''Ada''] ! 1)"
    using h by simp
  have c: "form_state (snd (fill_form sample_env sample_fields [''Tia'', ''Ada''] (sample_world [])))
             (sample_fields ! 4) = None"
    using h e by (simp add: sample_fields_def)
  show ?thesis using h a b c by (simp add: sample_fields_def)
qed

text \<open>
  C10. The signature is the name: the fifth field of the template, the one the signature
  text is stored under, holds what was typed in the name box, and so does the second.
\<close>

theorem signature_is_name:
  assumes "distinct form_fields" and "4 < length form_fields"
  shows "form_inputs trainee_name name department institution date ! 4 = name
       \<and> form_state (snd (fill_form E form_fields
             (form_inputs trainee_name name department institution date) w)) (form_fields ! 4)
           = Some name
       \<and> form_state (snd (fill_form E form_fields
             (form_inputs trainee_name name department institution date) w)) (form_fields ! 1)
           = Some name"
proof -
  let ?inputs = "form_inputs trainee_name name department institution date"
  have len: "length ?inputs = 6" by (simp add: form_inputs_def)
  have n4: "?inputs ! 4 = name" and n1: "?inputs ! 1 = name"
    by (simp_all add: form_inputs_def)
  have "assign_fields (zip ?inputs form_fields) (form_state w) (form_fields ! 4) = Some (?inputs ! 4)"
    using assms len by (intro assign_fields_zip_nth) simp_all
  moreover have "assign_fields (zip ?inputs form_fields) (form_state w) (form_fields ! 1) = Some (?inputs ! 1)"
    using assms len by (intro assign_fields_zip_nth) simp_all
  ultimately show ?thesis using n4 n1 by (simp add: fill_form_state)
qed

theorem signature_is_name_witness:
  "form_state (snd (fill_form sample_env sample_fields
       (form_inputs ''Tia'' ''Ada'' ''Chem'' ''MUN'' ''2024-03-05'') (sample_world []))) ''signature''
     = Some ''Ada''"
proof -
  have d: "distinct sample_fields" by (simp add: sample_fields_def)
  have l: "4 < length sample_fields" by (simp add: sample_fields_def)
  show ?thesis
    using signature_is_name [OF d l, of "''Tia''" "''Ada''" "''Chem''" "''MUN''" "''2024-03-05''"
        sample_env "sample_world []"]
    by (simp add: sample_fields_def)
qed

subsection \<open>\<^verbatim>\<open>update_repo_file\<close>\<close>

text \<open>
  C9. An argument that is not a DataFrame: the function returns \<^verbatim>\<open>False\<close> after one
  error message, and nothing else changes; no request is issued and the remote store is
  as it was.
\<close>

theorem update_repo_file_not_a_frame:
  assumes "\<not> isinstance_DataFrame new_content"
  shows "update_repo_file E file_path new_content name commit_message w
           = (Inr False, w\<lparr>ui := ui w @ [StError ''new_content must be a Pandas DataFrame'']\<rparr>)
       \<and> issued w (snd (update_repo_file E file_path new_content name commit_message w)) = []
       \<and> store (snd (update_repo_file E file_path new_content name commit_message w)) = store w"
  using assms by (cases new_content) (simp_all add: update_repo_file_def show_msg_def issued_def)

theorem update_repo_file_not_a_frame_witness:
  "fst (update_repo_file sample_env ledger_path PyNone ''Ada'' None (sample_world [answer 200 [] None]))
     = Inr False
   \<and> sent (snd (update_repo_file sample_env ledger_path PyNone ''Ada'' None
                   (sample_world [answer 200 [] None]))) = []
   \<and> store (snd (update_repo_file sample_env ledger_path PyNone ''Ada'' None
                   (sample_world [answer 200 [] None]))) = [answer 200 [] None]"
proof -
  have h: "\<not> isinstance_DataFrame PyNone" by simp
  show ?thesis
    using update_repo_file_not_a_frame [OF h, of sample_env ledger_path "''Ada''" None
        "sample_world [answer 200 [] None]"]
    by (simp add: sample_world_def issued_def)
qed

lemma update_repo_file_aborts:
  assumes "retrieve_sha (fst (remote E (store w) (info_request E file_path))) = Inl x"
  shows "issued w (snd (update_repo_file E file_path (PyFrame df) name commit_message w))
           = [info_request E file_path]"
  using assms
  by (cases x) (simp_all add: update_repo_file_def send_eq info_request_def show_msg_def Let_def)

lemma retrieve_sha_Some:
  "retrieve_sha out = Inr (Some t) \<longleftrightarrow>
     (\<exists>r js. out = Response r \<and> status_code r = 200 \<and> json r = Inr js \<and> map_of js ''sha'' = Some t)"
  by (auto simp: retrieve_sha_def split: outcome.splits option.splits sum.splits)

lemma retrieve_sha_None:
  "retrieve_sha out = Inr None \<longleftrightarrow> (\<exists>r. out = Response r \<and> status_code r = 404)"
  by (auto simp: retrieve_sha_def split: outcome.splits option.splits sum.splits)


lemma update_repo_file_writes:
  assumes "retrieve_sha (fst (remote E (store w) (info_request E file_path))) = Inr sha"
  shows "\<exists>msg. issued w (snd (update_repo_file E file_path (PyFrame df) name commit_message w))
           = [info_request E file_path,
              \<lparr>verb = PUT, url = contents_url E file_path,
               payload = [(''message'', msg), (''content'', b64encode (to_csv df False))]
                         @ (if truthy sha then [(''sha'', the sha)] else []),
               credentials = auth E\<rparr>]"
proof -
  define msg where "msg = (if truthy commit_message then the commit_message
     else ''Edited by '' @ name @ '' at '' @ strftime (clock E (ticks w)) ''%Y-%m-%d-%H-%m'')"
  define put where "put = \<lparr>verb = PUT, url = contents_url E file_path,
               payload = [(''message'', msg), (''content'', b64encode (to_csv df False))]
                         @ (if truthy sha then [(''sha'', the sha)] else []),
               credentials = auth E\<rparr>"
  define s1 where "s1 = snd (remote E (store w) (info_request E file_path))"
  have "issued w (snd (update_repo_file E file_path (PyFrame df) name commit_message w))
          = [info_request E file_path, put]"
  proof (cases "fst (remote E s1 put)")
    case (Response r)
    then show ?thesis
      using assms unfolding put_def msg_def s1_def
      by (cases "truthy commit_message"; cases "truthy sha";
          simp add: update_repo_file_def send_eq info_request_def show_msg_def Let_def now_def)
  next
    case (Raises e)
    then show ?thesis
      using assms unfolding put_def msg_def s1_def
      by (cases "truthy commit_message"; cases "truthy sha";
          simp add: update_repo_file_def send_eq info_request_def show_msg_def Let_def now_def)
  qed
  then show ?thesis unfolding put_def by blast
qed



lemma put_sha_found:
  assumes "fst (remote E (store w) (info_request E file_path)) = Response r"
    and "status_code r = 200" and "json r = Inr js" and "map_of js ''sha'' = Some t"
  shows "\<exists>q. issued w (snd (update_repo_file E file_path (PyFrame df) name commit_message w))
                 = [info_request E file_path, q]
             \<and> verb q = PUT \<and> url q = contents_url E file_path
             \<and> map_of (payload q) ''sha'' = (if t = [] then None else Some t)"
proof -
  have "retrieve_sha (fst (remote E (store w) (info_request E file_path))) = Inr (Some t)"
    using assms by (simp add: retrieve_sha_def)
  from update_repo_file_writes [OF this, of df name commit_message]
  obtain msg where "issued w (snd (update_repo_file E file_path (PyFrame df) name commit_message w))
           = [info_request E file_path,
              \<lparr>verb = PUT, url = contents_url E file_path,
               payload = [(''message'', msg), (''content'', b64encode (to_csv df False))]
                         @ (if truthy (Some t) then [(''sha'', the (Some t))] else []),
               credentials = auth E\<rparr>]" by blast
  then show ?thesis by simp
qed

lemma put_sha_missing:
  assumes "fst (remote E (store w) (info_request E file_path)) = Response r"
    and "status_code r = 404"
  shows "\<exists>q. issued w (snd (update_repo_file E file_path (PyFrame df) name commit_message w))
                 = [info_request E file_path, q]
             \<and> verb q = PUT \<and> url q = contents_url E file_path
             \<and> map_of (payload q) ''sha'' = None"
proof -
  have "retrieve_sha (fst (remote E (store w) (info_request E file_path))) = Inr None"
    using assms by (simp add: retrieve_sha_def)
  from update_repo_file_writes [OF this, of df name commit_message]
  obtain msg where "issued w (snd (update_repo_file E file_path (PyFrame df) name commit_message w))
           = [info_request E file_path,
              \<lparr>verb = PUT, url = contents_url E file_path,
               payload = [(''message'', msg), (''content'', b64encode (to_csv df False))]
                         @ (if truthy None then [(''sha'', the None)] else []),
               credentials = auth E\<rparr>]" by blast
  then show ?thesis by simp
qed


lemma put_sha_iff:
  assumes q: "q \<in> set (issued w (snd (update_repo_file E file_path (PyFrame df) name commit_message w)))"
    and put: "verb q = PUT"
  shows "map_of (payload q) ''sha'' = Some t \<longleftrightarrow>
         t \<noteq> [] \<and> (\<exists>r js. fst (remote E (store w) (info_request E file_path)) = Response r
                        \<and> status_code r = 200 \<and> json r = Inr js \<and> map_of js ''sha'' = Some t)"
proof (cases "retrieve_sha (fst (remote E (store w) (info_request E file_path)))")
  case (Inl x)
  have "q = info_request E file_path"
    using q update_repo_file_aborts [OF Inl, of df name commit_message] by simp
  then show ?thesis using put by simp
next
  case (Inr sha)
  obtain msg where "issued w (snd (update_repo_file E file_path (PyFrame df) name commit_message w))
           = [info_request E file_path,
              \<lparr>verb = PUT, url = contents_url E file_path,
               payload = [(''message'', msg), (''content'', b64encode (to_csv df False))]
                         @ (if truthy sha then [(''sha'', the sha)] else []),
               credentials = auth E\<rparr>]"
    using update_repo_file_writes [OF Inr, of df name commit_message] by blast
  with q put have pq: "payload q = [(''message'', msg), (''content'', b64encode (to_csv df False))]
                         @ (if truthy sha then [(''sha'', the sha)] else [])"
    by auto
  have ex: "(\<exists>r js. fst (remote E (store w) (info_request E file_path)) = Response r
                 \<and> status_code r = 200 \<and> json r = Inr js
                 \<and> map_of js ''sha'' = Some t) \<longleftrightarrow> sha = Some t"
    using retrieve_sha_Some [of "fst (remote E (store w) (info_request E file_path))" t] Inr
    by simp
  have "map_of (payload q) ''sha'' = Some t \<longleftrightarrow> t \<noteq> [] \<and> sha = Some t"
    unfolding pq by (cases sha) auto
  then show ?thesis unfolding ex .
qed





subsection \<open>The default commit message\<close>

text \<open>
  C5. At 14:59 on 5 March 2024 both default messages end in \<^verbatim>\<open>14-03\<close>: the last
  directive of the format string is \<^verbatim>\<open>%m\<close>, the month, where the minute is
  \<^verbatim>\<open>%M\<close>.
\<close>

theorem default_message_repeats_month:
  "clock sample_env 0 = \<lparr>year = 2024, month = 3, day = 5, hour = 14, minute = 59\<rparr>
   \<and> map payload
        (issued (sample_world [answer 404 [] None, answer 201 [] None])
        (snd (update_repo_file sample_env ledger_path (PyFrame sample_ledger) ''Ada'' None
               (sample_world [answer 404 [] None, answer 201 [] None]))))
       = [[], [(''message'', ''Edited by Ada at 2024-03-05-14-03''),
               (''content'', b64encode (to_csv sample_ledger False))]]
   \<and> map payload
        (issued (sample_world [answer 201 [] None])
        (snd (post_to_repo sample_env INPUT_PDF ''assets/filled_forms/a.pdf'' ''Ada'' None
               (sample_world [answer 201 [] None]))))
       = [[(''message'', ''PDF uploaded by Ada at 2024-03-05-14-03''),
           (''content'', b64encode ''%PDF''), (''branch'', ''main'')]]"
  by (simp add: run_defs branch_def)

subsection \<open>\<^verbatim>\<open>post_to_repo\<close>\<close>

text \<open>
  C7, as the code has it. With the document file in place, the function issues exactly
  one request, a POST to the contents URL of the target path, whose body is the message,
  the base64 text of the document and the branch, in that order, with no \<^verbatim>\<open>sha\<close>.
  It returns \<^verbatim>\<open>True\<close> exactly when the answer has status 200 or 201, \<^verbatim>\<open>False\<close>
  exactly when it has another status, and an exception of the transport escapes.
\<close>

theorem post_to_repo_request:
  assumes "files w pdf_path = Some pdf"
  shows "\<exists>msg q.
           q = \<lparr>verb = POST, url = contents_url E file_path,
                payload = [(''message'', msg), (''content'', b64encode pdf), (''branch'', branch)],
                credentials = auth E\<rparr>
         \<and> (\<forall>m. message = Some m \<longrightarrow> msg = m)
         \<and> issued w (snd (post_to_repo E pdf_path file_path name message w)) = [q]
         \<and> map_of (payload q) ''sha'' = None
         \<and> (fst (post_to_repo E pdf_path file_path name message w) = Inr True \<longleftrightarrow>
              (\<exists>r. fst (remote E (store w) q) = Response r
                  \<and> (status_code r = 200 \<or> status_code r = 201)))
         \<and> (fst (post_to_repo E pdf_path file_path name message w) = Inr False \<longleftrightarrow>
              (\<exists>r. fst (remote E (store w) q) = Response r
                  \<and> status_code r \<noteq> 200 \<and> status_code r \<noteq> 201))
         \<and> (\<forall>e. fst (post_to_repo E pdf_path file_path name message w) = Inl (RequestException e) \<longleftrightarrow>
              fst (remote E (store w) q) = Raises e)"
proof (cases message)
  case None
  show ?thesis
    using assms None
    by (cases "fst (remote E (store w) \<lparr>verb = POST, url = contents_url E file_path,
                payload = [(''message'', ''PDF uploaded by '' @ name @ '' at ''
                              @ strftime (clock E (ticks w)) ''%Y-%m-%d-%H-%m''),
                           (''content'', b64encode pdf), (''branch'', branch)],
                credentials = auth E\<rparr>)")
       (auto simp: post_to_repo_def send_eq now_def show_msg_def Let_def)
next
  case (Some m)
  show ?thesis
    using assms Some
    by (cases "fst (remote E (store w) \<lparr>verb = POST, url = contents_url E file_path,
                payload = [(''message'', m), (''content'', b64encode pdf), (''branch'', branch)],
                credentials = auth E\<rparr>)")
       (auto simp: post_to_repo_def send_eq now_def show_msg_def Let_def)
qed

theorem post_to_repo_request_witness:
  "issued (sample_world [answer 201 [] None])
     (snd (post_to_repo sample_env INPUT_PDF ''assets/filled_forms/a.pdf'' ''Ada'' (Some ''upload'')
            (sample_world [answer 201 [] None])))
     = [\<lparr>verb = POST, url = contents_url sample_env ''assets/filled_forms/a.pdf'',
         payload = [(''message'', ''upload''), (''content'', b64encode ''%PDF''), (''branch'', branch)],
         credentials = auth sample_env\<rparr>]
   \<and> fst (post_to_repo sample_env INPUT_PDF ''assets/filled_forms/a.pdf'' ''Ada'' (Some ''upload'')
            (sample_world [answer 201 [] None])) = Inr True"
proof -
  have f: "files (sample_world [answer 201 [] None]) INPUT_PDF = Some ''%PDF''"
    by (simp add: sample_world_def)
  obtain msg q where
    q: "q = \<lparr>verb = POST, url = contents_url sample_env ''assets/filled_forms/a.pdf'',
             payload = [(''message'', msg), (''content'', b64encode ''%PDF''), (''branch'', branch)],
             credentials = auth sample_env\<rparr>"
    and m: "\<forall>m. Some ''upload'' = Some m \<longrightarrow> msg = m"
    and i: "issued (sample_world [answer 201 [] None])
              (snd (post_to_repo sample_env INPUT_PDF ''assets/filled_forms/a.pdf'' ''Ada''
                     (Some ''upload'') (sample_world [answer 201 [] None]))) = [q]"
    and t: "fst (post_to_repo sample_env INPUT_PDF ''assets/filled_forms/a.pdf'' ''Ada''
                     (Some ''upload'') (sample_world [answer 201 [] None])) = Inr True \<longleftrightarrow>
              (\<exists>r. fst (remote sample_env (store (sample_world [answer 201 [] None])) q) = Response r
                  \<and> (status_code r = 200 \<or> status_code r = 201))"
    using post_to_repo_request [OF f, of sample_env "''assets/filled_forms/a.pdf''"
        "Some ''upload''" "''Ada''"]
    by blast
  have msg: "msg = ''upload''" using m by simp
  have "fst (remote sample_env (store (sample_world [answer 201 [] None])) q)
          = Response \<lparr>status_code = 201, body = [], json = Inl no_json\<rparr>"
    by (simp add: sample_env_def sample_world_def answer_def)
  then have "fst (post_to_repo sample_env INPUT_PDF ''assets/filled_forms/a.pdf'' ''Ada''
                     (Some ''upload'') (sample_world [answer 201 [] None])) = Inr True"
    using t by simp
  then show ?thesis using i q msg by simp
qed

text \<open>
  The claim as the specification words it, that the request is a PUT, fails on any run:
  the one request that goes out is a POST.
\<close>

theorem publish_verb_counterexample:
  "map verb (issued (sample_world [answer 201 [] None])
     (snd (post_to_repo sample_env INPUT_PDF ''assets/filled_forms/a.pdf'' ''Ada'' None
            (sample_world [answer 201 [] None])))) = [POST]
   \<and> PUT \<notin> set (map verb (issued (sample_world [answer 201 [] None])
     (snd (post_to_repo sample_env INPUT_PDF ''assets/filled_forms/a.pdf'' ''Ada'' None
            (sample_world [answer 201 [] None])))))"
  by (simp add: run_defs)

subsection \<open>Appending a record to the ledger table\<close>

lemma reindex_own:
  assumes "distinct cs" and "length r = length cs" and "set ex \<inter> set cs = {}"
  shows "reindex cs (cs @ ex) r = r @ replicate (length ex) NaN"
proof -
  have own: "map (\<lambda>c. case map_of (zip cs r) c of None \<Rightarrow> NaN | Some v \<Rightarrow> v) cs = r"
  proof (rule nth_equalityI)
    show "length (map (\<lambda>c. case map_of (zip cs r) c of None \<Rightarrow> NaN | Some v \<Rightarrow> v) cs) = length r"
      using assms(2) by simp
  next
    fix i
    assume "i < length (map (\<lambda>c. case map_of (zip cs r) c of None \<Rightarrow> NaN | Some v \<Rightarrow> v) cs)"
    then have i: "i < length r" using assms(2) by simp
    have "map_of (zip cs r) (cs ! i) = Some (r ! i)"
      using assms(1,2) i by (intro map_of_zip_nth) simp_all
    then show "map (\<lambda>c. case map_of (zip cs r) c of None \<Rightarrow> NaN | Some v \<Rightarrow> v) cs ! i = r ! i"
      using i assms(2) by simp
  qed
  have "map_of (zip cs r) c = None" if "c \<in> set ex" for c
    using that assms(2,3) by (simp add: disjoint_iff)
  then have rest: "map (\<lambda>c. case map_of (zip cs r) c of None \<Rightarrow> NaN | Some v \<Rightarrow> v) ex
                     = replicate (length ex) NaN"
    by (simp add: map_replicate_const [symmetric] cong: map_cong)
  show ?thesis by (simp add: reindex_def own rest)
qed

lemma reindex_lookup:
  assumes "distinct cols" and "c \<in> set cols"
  shows "map_of (zip cols (reindex cf cols r)) c
           = Some (case map_of (zip cf r) c of None \<Rightarrow> NaN | Some v \<Rightarrow> v)"
  using assms(2) by (simp add: reindex_def map_of_zip_map)

lemma length_reindex [simp]: "length (reindex cf ct r) = length ct"
  by (simp add: reindex_def)

lemma pd_concat_two: "pd_concat [Some a, Some b] = Inr (stack a b)"
  by (simp add: pd_concat_def)

lemma columns_stack:
  "columns (stack a b) = columns a @ filter (\<lambda>c. c \<notin> set (columns a)) (columns b)"
  by (simp add: stack_def Let_def)

lemma rows_stack:
  "rows (stack a b) = map (reindex (columns a) (columns (stack a b))) (rows a)
                      @ map (reindex (columns b) (columns (stack a b))) (rows b)"
  by (simp add: stack_def Let_def)

lemma distinct_columns_stack:
  "distinct (columns a) \<Longrightarrow> distinct (columns b) \<Longrightarrow> distinct (columns (stack a b))"
  by (auto simp: columns_stack)

lemma stack_prior_row:
  assumes "wf_frame a" and "i < length (rows a)"
  shows "rows (stack a b) ! i
           = rows a ! i @ replicate (length (filter (\<lambda>c. c \<notin> set (columns a)) (columns b))) NaN"
proof -
  have len: "length (rows a ! i) = length (columns a)"
    using assms by (simp add: wf_frame_def)
  have "rows (stack a b) ! i = reindex (columns a) (columns (stack a b)) (rows a ! i)"
    using assms(2) by (simp add: rows_stack nth_append)
  also have "\<dots> = rows a ! i @ replicate (length (filter (\<lambda>c. c \<notin> set (columns a)) (columns b))) NaN"
    unfolding columns_stack
    using assms(1) len by (intro reindex_own) (auto simp: wf_frame_def)
  finally show ?thesis .
qed

lemma columns_new [simp]:
  "columns (DataFrame (new_record n d)) = [''name'', ''form'', ''signed_on'']"
  "rows (DataFrame (new_record n d)) = [[Text n, Text ''f100d_e'', Text d]]"
  by (simp_all add: DataFrame_def new_record_def)

lemma stack_new_row:
  "last (rows (stack L (DataFrame (new_record n d))))
     = reindex [''name'', ''form'', ''signed_on''] (columns (stack L (DataFrame (new_record n d))))
         [Text n, Text ''f100d_e'', Text d]"
  by (simp add: rows_stack)

lemma stack_new_fields:
  assumes "distinct (columns L)"
  shows "map_of (zip (columns (stack L (DataFrame (new_record n d))))
                     (last (rows (stack L (DataFrame (new_record n d)))))) ''name'' = Some (Text n)"
    and "map_of (zip (columns (stack L (DataFrame (new_record n d))))
                     (last (rows (stack L (DataFrame (new_record n d)))))) ''form'' = Some (Text ''f100d_e'')"
    and "map_of (zip (columns (stack L (DataFrame (new_record n d))))
                     (last (rows (stack L (DataFrame (new_record n d)))))) ''signed_on'' = Some (Text d)"
proof -
  have dist: "distinct (columns (stack L (DataFrame (new_record n d))))"
    using assms by (intro distinct_columns_stack) simp_all
  have mem: "''name'' \<in> set (columns (stack L (DataFrame (new_record n d))))"
    "''form'' \<in> set (columns (stack L (DataFrame (new_record n d))))"
    "''signed_on'' \<in> set (columns (stack L (DataFrame (new_record n d))))"
    by (auto simp: columns_stack)
  show "map_of (zip (columns (stack L (DataFrame (new_record n d))))
                     (last (rows (stack L (DataFrame (new_record n d)))))) ''name'' = Some (Text n)"
    unfolding stack_new_row by (simp add: reindex_lookup [OF dist mem(1)])
  show "map_of (zip (columns (stack L (DataFrame (new_record n d))))
                     (last (rows (stack L (DataFrame (new_record n d)))))) ''form'' = Some (Text ''f100d_e'')"
    unfolding stack_new_row by (simp add: reindex_lookup [OF dist mem(2)])
  show "map_of (zip (columns (stack L (DataFrame (new_record n d))))
                     (last (rows (stack L (DataFrame (new_record n d)))))) ''signed_on'' = Some (Text d)"
    unfolding stack_new_row by (simp add: reindex_lookup [OF dist mem(3)])
qed

lemma stack_schema:
  assumes "wf_frame L" and "set [''name'', ''form'', ''signed_on''] \<subseteq> set (columns L)"
  shows "columns (stack L (DataFrame (new_record n d))) = columns L"
    and "rows (stack L (DataFrame (new_record n d)))
           = rows L @ [reindex [''name'', ''form'', ''signed_on''] (columns L)
                         [Text n, Text ''f100d_e'', Text d]]"
proof -
  show cols: "columns (stack L (DataFrame (new_record n d))) = columns L"
    using assms(2) by (simp add: columns_stack)
  have "reindex (columns L) (columns L) r = r" if "r \<in> set (rows L)" for r
    using reindex_own [of "columns L" r "[]"] assms(1) that by (simp add: wf_frame_def)
  then have "map (reindex (columns L) (columns L)) (rows L) = rows L"
    by (simp add: map_idI)
  then show "rows (stack L (DataFrame (new_record n d)))
           = rows L @ [reindex [''name'', ''form'', ''signed_on''] (columns L)
                         [Text n, Text ''f100d_e'', Text d]]"
    by (simp add: rows_stack cols)
qed

lemma to_csv_snoc:
  assumes "columns T = columns L" and "rows T = rows L @ [r]"
  shows "to_csv T False = to_csv L False @ csv_line (map cell_text r)"
  using assms by (simp add: to_csv_def csv_records_def)

lemma csv_records_no_index:
  assumes "\<forall>r \<in> set (rows T). length r = length (columns T)"
  shows "hd (csv_records T False) = columns T"
    and "\<forall>rec \<in> set (csv_records T False). length rec = length (columns T)"
  using assms by (auto simp: csv_records_def)

lemma wf_stack_new:
  "\<forall>r \<in> set (rows (stack L (DataFrame (new_record n d)))).
     length r = length (columns (stack L (DataFrame (new_record n d))))"
  by (auto simp: rows_stack)




subsection \<open>The steps of the submit handler\<close>

text \<open>What each function does to the log of requests, the messages and the local files.\<close>

lemma fetch_records_world:
  "sent (snd (fetch_records E p h w)) = sent w @ [raw_request E p]"
  "store (snd (fetch_records E p h w)) = snd (remote E (store w) (raw_request E p))"
  "files (snd (fetch_records E p h w)) = files w"
  "ticks (snd (fetch_records E p h w)) = ticks w"
  "\<exists>ms. ui (snd (fetch_records E p h w)) = ui w @ ms"
  by (cases "fst (remote E (store w) (raw_request E p))";
      simp add: fetch_records_def send_eq raw_request_def show_msg_def split: sum.split)+

lemma fetch_records_result:
  assumes "fst (remote E (store w) (raw_request E p)) = Response r"
  shows "status_code r = 200 \<Longrightarrow> read_csv E (body r) h = Inr L \<Longrightarrow>
           fst (fetch_records E p h w) = Some L"
    and "status_code r \<noteq> 200 \<Longrightarrow> fst (fetch_records E p h w) = None"
  using assms by (simp_all add: fetch_records_def send_eq raw_request_def)

lemma update_repo_file_sent_abort:
  assumes "retrieve_sha (fst (remote E (store w) (info_request E file_path))) = Inl x"
  shows "sent (snd (update_repo_file E file_path (PyFrame df) name commit_message w))
           = sent w @ [info_request E file_path]"
  using assms
  by (cases x) (simp_all add: update_repo_file_def send_eq info_request_def show_msg_def Let_def)

lemma update_repo_file_sent_write:
  assumes "retrieve_sha (fst (remote E (store w) (info_request E file_path))) = Inr sha"
  shows "\<exists>msg. sent (snd (update_repo_file E file_path (PyFrame df) name commit_message w))
           = sent w @ [info_request E file_path,
              \<lparr>verb = PUT, url = contents_url E file_path,
               payload = [(''message'', msg), (''content'', b64encode (to_csv df False))]
                         @ (if truthy sha then [(''sha'', the sha)] else []),
               credentials = auth E\<rparr>]"
proof -
  define msg where "msg = (if truthy commit_message then the commit_message
     else ''Edited by '' @ name @ '' at '' @ strftime (clock E (ticks w)) ''%Y-%m-%d-%H-%m'')"
  define put where "put = \<lparr>verb = PUT, url = contents_url E file_path,
               payload = [(''message'', msg), (''content'', b64encode (to_csv df False))]
                         @ (if truthy sha then [(''sha'', the sha)] else []),
               credentials = auth E\<rparr>"
  define s1 where "s1 = snd (remote E (store w) (info_request E file_path))"
  have "sent (snd (update_repo_file E file_path (PyFrame df) name commit_message w))
          = sent w @ [info_request E file_path, put]"
  proof (cases "fst (remote E s1 put)")
    case (Response r)
    then show ?thesis
      using assms unfolding put_def msg_def s1_def
      by (cases "truthy commit_message"; cases "truthy sha";
          simp add: update_repo_file_def send_eq info_request_def show_msg_def Let_def now_def)
  next
    case (Raises e)
    then show ?thesis
      using assms unfolding put_def msg_def s1_def
      by (cases "truthy commit_message"; cases "truthy sha";
          simp add: update_repo_file_def send_eq info_request_def show_msg_def Let_def now_def)
  qed
  then show ?thesis unfolding put_def by blast
qed

lemma update_repo_file_files:
  "files (snd (update_repo_file E file_path new_content name commit_message w)) = files w"
proof (cases new_content)
  case (PyFrame df)
  show ?thesis
  proof (cases "retrieve_sha (fst (remote E (store w) (info_request E file_path)))")
    case (Inl x)
    then show ?thesis using PyFrame
      by (cases x) (simp_all add: update_repo_file_def send_eq info_request_def show_msg_def Let_def)
  next
    case (Inr sha)
    then show ?thesis using PyFrame
      by (cases "truthy commit_message"; cases "truthy sha";
          simp add: update_repo_file_def send_eq info_request_def show_msg_def Let_def now_def
               split: prod.split outcome.split)
  qed
qed (simp_all add: update_repo_file_def show_msg_def)

lemma update_repo_file_reports:
  assumes "fst (update_repo_file E file_path new_content name commit_message w) = Inr False"
  shows "\<exists>m. ui (snd (update_repo_file E file_path new_content name commit_message w))
               = ui w @ [StError m]"
proof (cases new_content)
  case (PyFrame df)
  show ?thesis
  proof (cases "retrieve_sha (fst (remote E (store w) (info_request E file_path)))")
    case (Inl x)
    then show ?thesis using PyFrame assms
      by (cases x; cases "fst (remote E (store w) (info_request E file_path))")
         (auto simp: update_repo_file_def send_eq info_request_def show_msg_def Let_def
            retrieve_sha_def split: if_splits option.splits sum.splits)
  next
    case (Inr sha)
    define msg where "msg = (if truthy commit_message then the commit_message
       else ''Edited by '' @ name @ '' at '' @ strftime (clock E (ticks w)) ''%Y-%m-%d-%H-%m'')"
    define put where "put = \<lparr>verb = PUT, url = contents_url E file_path,
                 payload = [(''message'', msg), (''content'', b64encode (to_csv df False))]
                           @ (if truthy sha then [(''sha'', the sha)] else []),
                 credentials = auth E\<rparr>"
    define s1 where "s1 = snd (remote E (store w) (info_request E file_path))"
    show ?thesis
    proof (cases "fst (remote E s1 put)")
      case (Raises e)
      then show ?thesis
        using Inr PyFrame unfolding put_def msg_def s1_def
        by (cases "truthy commit_message"; cases "truthy sha";
            simp add: update_repo_file_def send_eq info_request_def show_msg_def Let_def now_def)
    next
      case (Response r)
      then show ?thesis
        using Inr PyFrame assms unfolding put_def msg_def s1_def
        by (cases "truthy commit_message"; cases "truthy sha";
            cases "status_code r = 200 \<or> status_code r = 201";
            simp add: update_repo_file_def send_eq info_request_def show_msg_def Let_def now_def)
    qed
  qed
qed (simp_all add: update_repo_file_def show_msg_def)

lemma update_repo_file_returns:
  assumes "retrieve_sha (fst (remote E (store w) (info_request E file_path))) = Inr sha"
  shows "\<exists>b. fst (update_repo_file E file_path (PyFrame df) name commit_message w) = Inr b"
proof -
  define msg where "msg = (if truthy commit_message then the commit_message
     else ''Edited by '' @ name @ '' at '' @ strftime (clock E (ticks w)) ''%Y-%m-%d-%H-%m'')"
  define put where "put = \<lparr>verb = PUT, url = contents_url E file_path,
               payload = [(''message'', msg), (''content'', b64encode (to_csv df False))]
                         @ (if truthy sha then [(''sha'', the sha)] else []),
               credentials = auth E\<rparr>"
  define s1 where "s1 = snd (remote E (store w) (info_request E file_path))"
  show ?thesis
  proof (cases "fst (remote E s1 put)")
    case (Response r)
    then show ?thesis
      using assms unfolding put_def msg_def s1_def
      by (cases "truthy commit_message"; cases "truthy sha";
          cases "status_code r = 200 \<or> status_code r = 201";
          auto simp add: update_repo_file_def send_eq info_request_def show_msg_def Let_def now_def)
  next
    case (Raises e)
    then show ?thesis
      using assms unfolding put_def msg_def s1_def
      by (cases "truthy commit_message"; cases "truthy sha";
          auto simp add: update_repo_file_def send_eq info_request_def show_msg_def Let_def now_def)
  qed
qed

text \<open>The table that line 223 builds from what the fetch returned.\<close>

lemma pd_concat_fetched:
  "pd_concat [df, Some b] = Inr (case df of None \<Rightarrow> b | Some a \<Rightarrow> stack a b)"
  by (cases df) (simp_all add: pd_concat_def)

lemma append_ledger_eq:
  "append_ledger E name date w =
     update_repo_file E ledger_path
       (PyFrame (case fst (fetch_records E ledger_path (Some 0) w) of
                   None \<Rightarrow> DataFrame (new_record name date)
                 | Some a \<Rightarrow> stack a (DataFrame (new_record name date))))
       name None (snd (fetch_records E ledger_path (Some 0) w))"
  by (simp add: append_ledger_def pd_concat_fetched split: prod.split)

lemma append_ledger_files: "files (snd (append_ledger E name date w)) = files w"
  by (simp add: append_ledger_eq update_repo_file_files fetch_records_world)

lemma shown_append [simp]: "ui w' = ui w @ ms \<Longrightarrow> shown w w' = ms"
  by (simp add: shown_def)

lemma append_ledger_reports:
  assumes "fst (append_ledger E name date w) = Inr False"
  shows "\<exists>m. StError m \<in> set (shown w (snd (append_ledger E name date w)))"
proof -
  obtain ms where ms: "ui (snd (fetch_records E ledger_path (Some 0) w)) = ui w @ ms"
    using fetch_records_world(5) by blast
  obtain m where "ui (snd (append_ledger E name date w))
                    = ui (snd (fetch_records E ledger_path (Some 0) w)) @ [StError m]"
    using update_repo_file_reports assms unfolding append_ledger_eq by blast
  then have "ui (snd (append_ledger E name date w)) = ui w @ (ms @ [StError m])"
    using ms by simp
  then have "shown w (snd (append_ledger E name date w)) = ms @ [StError m]"
    by (rule shown_append)
  then show ?thesis by auto
qed

lemma post_to_repo_sent:
  assumes "files w pdf_path = Some pdf"
  shows "\<exists>msg. sent (snd (post_to_repo E pdf_path file_path name None w))
           = sent w @ [\<lparr>verb = POST, url = contents_url E file_path,
                payload = [(''message'', msg), (''content'', b64encode pdf), (''branch'', branch)],
                credentials = auth E\<rparr>]"
  using assms
  by (cases "fst (remote E (store w) \<lparr>verb = POST, url = contents_url E file_path,
                payload = [(''message'', ''PDF uploaded by '' @ name @ '' at ''
                              @ strftime (clock E (ticks w)) ''%Y-%m-%d-%H-%m''),
                           (''content'', b64encode pdf), (''branch'', branch)],
                credentials = auth E\<rparr>)")
     (simp_all add: post_to_repo_def send_eq now_def show_msg_def Let_def)

lemma post_to_repo_ui:
  assumes "files w pdf_path = Some pdf"
  shows "fst (post_to_repo E pdf_path file_path name None w) = Inr False \<Longrightarrow>
           \<exists>m. ui (snd (post_to_repo E pdf_path file_path name None w)) = ui w @ [StError m]"
    and "fst (post_to_repo E pdf_path file_path name None w) = Inr True \<Longrightarrow>
           \<exists>m. ui (snd (post_to_repo E pdf_path file_path name None w)) = ui w @ [StSuccess m]"
  using assms
  by (cases "fst (remote E (store w) \<lparr>verb = POST, url = contents_url E file_path,
                payload = [(''message'', ''PDF uploaded by '' @ name @ '' at ''
                              @ strftime (clock E (ticks w)) ''%Y-%m-%d-%H-%m''),
                           (''content'', b64encode pdf), (''branch'', branch)],
                credentials = auth E\<rparr>)";
      simp add: post_to_repo_def send_eq now_def show_msg_def Let_def split: if_splits)+

lemma fill_form_world:
  "sent (snd (fill_form E form_fields inputs w)) = sent w"
  "store (snd (fill_form E form_fields inputs w)) = store w"
  "ticks (snd (fill_form E form_fields inputs w)) = ticks w"
  by (simp_all add: fill_form_def Let_def show_msg_def split: option.split)

lemma submit_eq:
  assumes "files w INPUT_PDF = Some template"
  shows "submit E form_fields trainee_name name department institution w =
     (case append_ledger E name (strftime (clock E (ticks w)) ''%Y-%m-%d'')
             (snd (fill_form E form_fields
                    (form_inputs trainee_name name department institution
                       (strftime (clock E (ticks w)) ''%Y-%m-%d''))
                    (snd (now E w)))) of
        (Inl e, w2) \<Rightarrow> (Some e, w2)
      | (Inr record_success, w2) \<Rightarrow>
          (case publish_document E name (strftime (clock E (ticks w)) ''%Y-%m-%d'') w2 of
             (Inl e, w3) \<Rightarrow> (Some e, w3)
           | (Inr pdf_success, w3) \<Rightarrow>
               if record_success \<and> pdf_success then
                 (None, show_msg (StLinkButton ''Visit Records'' records_link)
                          (show_msg (StWrite ''Visit the assets folder in the forms repository if you have access:'') w3))
               else (None, w3)))"
proof -
  have t: "files (snd (now E w)) INPUT_PDF = Some template"
    using assms by (simp add: now_def)
  obtain a w1 where f: "fill_form E form_fields
          (form_inputs trainee_name name department institution
             (strftime (clock E (ticks w)) ''%Y-%m-%d'')) (snd (now E w)) = (a, w1)"
    by (cases "fill_form E form_fields
          (form_inputs trainee_name name department institution
             (strftime (clock E (ticks w)) ''%Y-%m-%d'')) (snd (now E w))") blast
  have "fst (fill_form E form_fields
          (form_inputs trainee_name name department institution
             (strftime (clock E (ticks w)) ''%Y-%m-%d'')) (snd (now E w))) = None"
    by (rule fill_form_ok(1) [OF t])
  then have a: "a = None" unfolding f by (simp only: fst_conv)
  show ?thesis
    using f unfolding a by (simp add: submit_def now_def Let_def)
qed

lemma post_to_repo_raised:
  assumes "files w pdf_path = Some pdf"
    and "fst (post_to_repo E pdf_path file_path name None w) = Inl e"
  shows "ui (snd (post_to_repo E pdf_path file_path name None w)) = ui w"
  using assms
  by (cases "fst (remote E (store w) \<lparr>verb = POST, url = contents_url E file_path,
                payload = [(''message'', ''PDF uploaded by '' @ name @ '' at ''
                              @ strftime (clock E (ticks w)) ''%Y-%m-%d-%H-%m''),
                           (''content'', b64encode pdf), (''branch'', branch)],
                credentials = auth E\<rparr>)";
      simp add: post_to_repo_def send_eq now_def show_msg_def Let_def split: if_splits)

lemma show_msg_proj [simp]:
  "sent (show_msg m w) = sent w" "ui (show_msg m w) = ui w @ [m]"
  by (simp_all add: show_msg_def)

lemma stack_ledger:
  assumes "wf_frame L" and "columns L = [''name'', ''form'', ''signed_on'']"
  shows "stack L (DataFrame (new_record n d))
           = \<lparr>columns = columns L, rows = rows L @ [[Text n, Text ''f100d_e'', Text d]]\<rparr>"
proof -
  have sch: "set [''name'', ''form'', ''signed_on''] \<subseteq> set (columns L)"
    using assms(2) by simp
  have "reindex [''name'', ''form'', ''signed_on''] (columns L) [Text n, Text ''f100d_e'', Text d]
          = [Text n, Text ''f100d_e'', Text d]"
    using assms(2) by (simp add: reindex_def)
  then have "columns (stack L (DataFrame (new_record n d))) = columns L"
    and "rows (stack L (DataFrame (new_record n d))) = rows L @ [[Text n, Text ''f100d_e'', Text d]]"
    using stack_schema [OF assms(1) sch, of n d] by simp_all
  then show ?thesis by (cases "stack L (DataFrame (new_record n d))") simp
qed

lemma strftime_date:
  "strftime t ''%Y-%m-%d'' = pad4 (year t) @ ''-'' @ pad2 (month t) @ ''-'' @ pad2 (day t)"
  by (simp add: strftime.simps directive_def)

lemmas submit_defs = submit_def fill_form_def form_inputs_def append_ledger_def fetch_records_def
  raw_url_def pd_concat_def stack_def reindex_def DataFrame_def new_record_def publish_document_def
  pdf_repo_path_def INPUT_PDF_def OUTPUT_PDF_def sample_fields_def sample_ledger_def branch_def
  str_int_def str_nat.simps raw_request_def

text \<open>
  C2, as the code has it. Once the form is filled and the ledger step has returned, with
  \<^verbatim>\<open>True\<close> or with \<^verbatim>\<open>False\<close>, the handler goes on to the publish step: the next
  and last request is the POST of the document to its path. A ledger step that returned
  \<^verbatim>\<open>False\<close> has shown an error message, and so has a publish step that returned
  \<^verbatim>\<open>False\<close>; the link to the records is shown exactly when both returned \<^verbatim>\<open>True\<close>.
\<close>

theorem submit_runs_all_steps:
  assumes template: "files w INPUT_PDF = Some template"
    and d: "d = strftime (clock E (ticks w)) ''%Y-%m-%d''"
    and w1: "w1 = snd (fill_form E form_fields
                    (form_inputs trainee_name name department institution d) (snd (now E w)))"
    and ledger: "append_ledger E name d w1 = (Inr record_success, w2)"
  shows "(\<exists>q. issued w2 (snd (submit E form_fields trainee_name name department institution w)) = [q]
            \<and> verb q = POST \<and> url q = contents_url E (pdf_repo_path name d))
       \<and> (\<not> record_success \<longrightarrow> (\<exists>m. StError m \<in> set (shown w1 w2)))
       \<and> (fst (publish_document E name d w2) = Inr False \<longrightarrow>
            (\<exists>m. StError m \<in> set (shown w2
                    (snd (submit E form_fields trainee_name name department institution w)))))
       \<and> (StLinkButton ''Visit Records'' records_link
              \<in> set (shown w2 (snd (submit E form_fields trainee_name name department institution w)))
            \<longleftrightarrow> record_success \<and> fst (publish_document E name d w2) = Inr True)"
proof -
  let ?S = "submit E form_fields trainee_name name department institution w"
  let ?P = "publish_document E name d w2"
  have t0: "files (snd (now E w)) INPUT_PDF = Some template"
    using template by (simp add: now_def)
  have w2: "w2 = snd (append_ledger E name d w1)" using ledger by simp
  obtain pdf where pdf: "files w2 OUTPUT_PDF = Some pdf"
    using fill_form_ok(2) [OF t0, of E form_fields] w1 w2 by (simp add: append_ledger_files)
  have S: "?S = (case ?P of
             (Inl e, w3) \<Rightarrow> (Some e, w3)
           | (Inr pdf_success, w3) \<Rightarrow>
               if record_success \<and> pdf_success then
                 (None, show_msg (StLinkButton ''Visit Records'' records_link)
                          (show_msg (StWrite ''Visit the assets folder in the forms repository if you have access:'') w3))
               else (None, w3))"
    using submit_eq [OF template, of E form_fields trainee_name name department institution]
      ledger unfolding d w1 by simp
  obtain res w3 where P: "?P = (res, w3)" by (cases ?P) blast
  obtain msg where sent3: "sent w3 = sent w2 @ [\<lparr>verb = POST,
                url = contents_url E (pdf_repo_path name d),
                payload = [(''message'', msg), (''content'', b64encode pdf), (''branch'', branch)],
                credentials = auth E\<rparr>]"
    using post_to_repo_sent [OF pdf, of E "pdf_repo_path name d" name] P
    by (auto simp: publish_document_def)
  have sentS: "sent (snd ?S) = sent w3"
    unfolding S P by (cases res) simp_all
  have c1: "\<exists>q. issued w2 (snd ?S) = [q] \<and> verb q = POST
               \<and> url q = contents_url E (pdf_repo_path name d)"
    using sentS sent3 by simp
  have c2: "\<not> record_success \<longrightarrow> (\<exists>m. StError m \<in> set (shown w1 w2))"
    using append_ledger_reports [of E name d w1] ledger by simp
  have c3: "\<exists>m. StError m \<in> set (shown w2 (snd ?S))" if f: "fst ?P = Inr False"
  proof -
    obtain m where "ui w3 = ui w2 @ [StError m]"
      using post_to_repo_ui(1) [OF pdf, of E "pdf_repo_path name d" name] f P
      by (auto simp: publish_document_def)
    moreover have "snd ?S = w3" using f unfolding S P by simp
    ultimately show ?thesis by simp
  qed
  have c4: "StLinkButton ''Visit Records'' records_link \<in> set (shown w2 (snd ?S))
            \<longleftrightarrow> record_success \<and> fst ?P = Inr True"
  proof (cases res)
    case (Inl e)
    then have "ui w3 = ui w2"
      using post_to_repo_raised [OF pdf, of E "pdf_repo_path name d" name e] P
      by (simp add: publish_document_def)
    then show ?thesis using Inl unfolding S P by simp
  next
    case (Inr ps)
    show ?thesis
    proof (cases ps)
      case True
      then obtain m where "ui w3 = ui w2 @ [StSuccess m]"
        using post_to_repo_ui(2) [OF pdf, of E "pdf_repo_path name d" name] Inr P
        by (auto simp: publish_document_def)
      then show ?thesis using Inr True unfolding S P by simp
    next
      case False
      then obtain m where "ui w3 = ui w2 @ [StError m]"
        using post_to_repo_ui(1) [OF pdf, of E "pdf_repo_path name d" name] Inr P
        by (auto simp: publish_document_def)
      then show ?thesis using Inr False unfolding S P by simp
    qed
  qed
  show ?thesis using c1 c2 c3 c4 by blast
qed

theorem submit_runs_all_steps_witness:
  "fst (append_ledger sample_env ''Ada'' ''2024-03-05''
         (snd (fill_form sample_env sample_fields
                (form_inputs ''Tia'' ''Ada'' ''Chem'' ''MUN'' ''2024-03-05'')
                (snd (now sample_env
                   (sample_world [answer 200 ''csv'' None, answer 404 [] None,
                                  answer 500 ''boom'' None, answer 201 [] None])))))) = Inr False
   \<and> (\<exists>q. issued
          (snd (append_ledger sample_env ''Ada'' ''2024-03-05''
             (snd (fill_form sample_env sample_fields
                (form_inputs ''Tia'' ''Ada'' ''Chem'' ''MUN'' ''2024-03-05'')
                (snd (now sample_env
                   (sample_world [answer 200 ''csv'' None, answer 404 [] None,
                                  answer 500 ''boom'' None, answer 201 [] None])))))))
          (snd (submit sample_env sample_fields ''Tia'' ''Ada'' ''Chem'' ''MUN''
                 (sample_world [answer 200 ''csv'' None, answer 404 [] None,
                                answer 500 ''boom'' None, answer 201 [] None]))) = [q]
        \<and> verb q = POST
        \<and> url q = contents_url sample_env (pdf_repo_path ''Ada'' ''2024-03-05''))"
proof -
  let ?W = "sample_world [answer 200 ''csv'' None, answer 404 [] None,
                          answer 500 ''boom'' None, answer 201 [] None]"
  let ?w1 = "snd (fill_form sample_env sample_fields
                (form_inputs ''Tia'' ''Ada'' ''Chem'' ''MUN'' ''2024-03-05'')
                (snd (now sample_env ?W)))"
  have template: "files ?W INPUT_PDF = Some ''%PDF''" by (simp add: sample_world_def)
  have d: "''2024-03-05'' = strftime (clock sample_env (ticks ?W)) ''%Y-%m-%d''"
    by (simp add: run_defs)
  have failed: "fst (append_ledger sample_env ''Ada'' ''2024-03-05'' ?w1) = Inr False"
    by (simp add: run_defs submit_defs)
  then have ledger: "append_ledger sample_env ''Ada'' ''2024-03-05'' ?w1
                       = (Inr False, snd (append_ledger sample_env ''Ada'' ''2024-03-05'' ?w1))"
    by (simp add: prod_eq_iff)
  show ?thesis
    using submit_runs_all_steps [OF template d refl ledger] failed by blast
qed

text \<open>
  The claim as the specification words it, that a failed ledger append keeps the publish
  from being attempted, fails on a run where the write of the ledger is answered with
  status 500: the error is shown and the POST of the document follows.
\<close>

theorem failed_append_counterexample:
  "map verb (issued (sample_world [answer 200 ''csv'' None, answer 404 [] None,
                                   answer 500 ''boom'' None, answer 201 [] None])
       (snd (submit sample_env sample_fields ''Tia'' ''Ada'' ''Chem'' ''MUN''
              (sample_world [answer 200 ''csv'' None, answer 404 [] None,
                             answer 500 ''boom'' None, answer 201 [] None]))))
     = [GET, GET, PUT, POST]
   \<and> StError ''Failed to update file: 500 - boom''
       \<in> set (ui (snd (submit sample_env sample_fields ''Tia'' ''Ada'' ''Chem'' ''MUN''
              (sample_world [answer 200 ''csv'' None, answer 404 [] None,
                             answer 500 ''boom'' None, answer 201 [] None]))))
   \<and> StSuccess ''PDF correctly submitted for review: PDF uploaded by Ada at 2024-03-05-14-03''
       \<in> set (ui (snd (submit sample_env sample_fields ''Tia'' ''Ada'' ''Chem'' ''MUN''
              (sample_world [answer 200 ''csv'' None, answer 404 [] None,
                             answer 500 ''boom'' None, answer 201 [] None]))))"
  by (simp add: run_defs submit_defs)

text \<open>
  C4. A run where the read of the ledger is answered with status 500 and the store then
  answers the other requests: the error is shown, and the handler goes on with a table of
  the new row alone, which it writes over the ledger under the marker it has just read.
\<close>

theorem failed_read_overwrites_ledger:
  "map verb (issued (sample_world [answer 500 ''oops'' None, answer 200 [] (Some [(''sha'', ''abc'')]),
                                   answer 200 [] None, answer 201 [] None])
       (snd (submit sample_env sample_fields ''Tia'' ''Ada'' ''Chem'' ''MUN''
              (sample_world [answer 500 ''oops'' None, answer 200 [] (Some [(''sha'', ''abc'')]),
                             answer 200 [] None, answer 201 [] None]))))
     = [GET, GET, PUT, POST]
   \<and> payload (issued (sample_world [answer 500 ''oops'' None, answer 200 [] (Some [(''sha'', ''abc'')]),
                                   answer 200 [] None, answer 201 [] None])
       (snd (submit sample_env sample_fields ''Tia'' ''Ada'' ''Chem'' ''MUN''
              (sample_world [answer 500 ''oops'' None, answer 200 [] (Some [(''sha'', ''abc'')]),
                             answer 200 [] None, answer 201 [] None]))) ! 2)
     = [(''message'', ''Edited by Ada at 2024-03-05-14-03''),
        (''content'', b64encode (to_csv \<lparr>columns = [''name'', ''form'', ''signed_on''],
                        rows = [[Text ''Ada'', Text ''f100d_e'', Text ''2024-03-05'']]\<rparr> False)),
        (''sha'', ''abc'')]
   \<and> ui (snd (append_ledger sample_env ''Ada'' ''2024-03-05''
              (sample_world [answer 500 ''oops'' None, answer 200 [] (Some [(''sha'', ''abc'')]),
                             answer 200 [] None, answer 201 [] None])))
     = [StError ''Failed to fetch assets/form_records.csv. Status code: 500'',
        StSuccess ''File updated successfully.'']
   \<and> fst (append_ledger sample_env ''Ada'' ''2024-03-05''
              (sample_world [answer 500 ''oops'' None, answer 200 [] (Some [(''sha'', ''abc'')]),
                             answer 200 [] None, answer 201 [] None])) = Inr True"
  by (simp add: run_defs submit_defs)



end
